theory Spec2Isabelle
  imports Main
begin

unbundle bit_operations_syntax

section \<open>JavaScript values, exceptions and string conversions\<close>

text \<open>
  A thrown exception is a value of type \<open>error\<close>: \<open>TypeError\<close> is what the runtime throws
  when a property of \<open>undefined\<close> is read or a non-function is called, \<open>RangeError\<close> is
  the stack overflow of an unbounded recursion, and \<open>Error msg\<close> is \<open>throw new Error(msg)\<close>
  of the source. A method that can throw returns \<open>error + 'a\<close>; a method that also
  mutates \<open>this\<close> returns the object after the call next to the outcome, since the
  assignments made before a \<open>throw\<close> persist.

  Strings are byte strings (the UTF-8 encoding the digest consumes). Numbers are
  integers: amounts, timestamps, indices and nonces are modelled as \<open>int\<close>, exact for
  the integer-valued doubles below \<open>2^53\<close>.
\<close>

datatype error = TypeError | RangeError | Error string

text \<open>\<open>Number.prototype.toString\<close> on an integer: the decimal digits, with a sign.\<close>

function digits :: "nat \<Rightarrow> string" where
  "digits n = (if n < 10 then [''0123456789'' ! n]
               else digits (n div 10) @ [''0123456789'' ! (n mod 10)])"
  by pat_completeness auto
termination
  by (relation "measure id") auto

declare digits.simps [simp del]

definition Number_toString :: "int \<Rightarrow> string" where
  "Number_toString i = (if i < 0 then ''-'' @ digits (nat (- i)) else digits (nat i))"

text \<open>
  The relational operator \<open><\<close> on two strings: lexicographic on the code units
  (here bytes; the two orders agree on the hexadecimal digests it is applied to).
\<close>

fun js_less :: "string \<Rightarrow> string \<Rightarrow> bool" where
  "js_less [] [] = False"
| "js_less [] (y # ys) = True"
| "js_less (x # xs) [] = False"
| "js_less (x # xs) (y # ys) =
     (if (of_char x :: nat) < of_char y then True
      else if (of_char y :: nat) < of_char x then False
      else js_less xs ys)"

text \<open>\<open>Array.prototype.indexOf\<close>: the first position holding the value, \<open>None\<close> for \<open>-1\<close>.\<close>

fun indexOf :: "'a list \<Rightarrow> 'a \<Rightarrow> nat option" where
  "indexOf [] v = None"
| "indexOf (x # xs) v = (if x = v then Some 0 else map_option Suc (indexOf xs v))"

text \<open>\<open>JSON.stringify\<close> of a string: quoted, with the escapes of the standard.\<close>

definition json_escape :: "char \<Rightarrow> string" where
  "json_escape c =
     (if c = CHR 0x22 then [CHR 0x5C, CHR 0x22]
      else if c = CHR 0x5C then [CHR 0x5C, CHR 0x5C]
      else if c = CHR 0x08 then [CHR 0x5C, CHR ''b'']
      else if c = CHR 0x0C then [CHR 0x5C, CHR ''f'']
      else if c = CHR 0x0A then [CHR 0x5C, CHR ''n'']
      else if c = CHR 0x0D then [CHR 0x5C, CHR ''r'']
      else if c = CHR 0x09 then [CHR 0x5C, CHR ''t'']
      else if (of_char c :: nat) < 32 then
        [CHR 0x5C, CHR ''u'', CHR ''0'', CHR ''0'',
         ''0123456789abcdef'' ! (of_char c div 16), ''0123456789abcdef'' ! (of_char c mod 16)]
      else [c])"

definition json_string :: "string \<Rightarrow> string" where
  "json_string s = [CHR 0x22] @ concat (map json_escape s) @ [CHR 0x22]"

definition json_nullable :: "string option \<Rightarrow> string" where
  "json_nullable v = (case v of None \<Rightarrow> ''null'' | Some s \<Rightarrow> json_string s)"

definition json_key :: "string \<Rightarrow> string" where
  "json_key k = json_string k @ '':''"

fun join :: "string \<Rightarrow> string list \<Rightarrow> string" where
  "join sep [] = []"
| "join sep [s] = s"
| "join sep (s # t # ss) = s @ sep @ join sep (t # ss)"

text \<open>\<open>Array.prototype.map\<close> with a callback that can throw: the first exception ends the
  traversal.\<close>

fun Array_map :: "('a \<Rightarrow> error + 'b) \<Rightarrow> 'a list \<Rightarrow> error + 'b list" where
  "Array_map f [] = Inr []"
| "Array_map f (x # xs) =
     (case f x of
        Inl e \<Rightarrow> Inl e
      | Inr y \<Rightarrow> (case Array_map f xs of Inl e \<Rightarrow> Inl e | Inr ys \<Rightarrow> Inr (y # ys)))"

section \<open>The SHA-256 digest\<close>

text \<open>
  Node's \<open>crypto.createHash("sha256")\<close> and crypto-js's \<open>SHA256\<close> compute the SHA-256 of
  the standard FIPS 180-4 and render it as 64 lower-case hexadecimal digits. The
  definitions of the program take the digest as a parameter \<open>H\<close>; \<open>sha256\<close> is the digest
  itself, over 32-bit words held as natural numbers below \<open>2^32\<close>.
\<close>

definition add32 :: "nat \<Rightarrow> nat \<Rightarrow> nat" where
  "add32 x y = (x + y) mod 4294967296"

definition rotr32 :: "nat \<Rightarrow> nat \<Rightarrow> nat" where
  "rotr32 n x = x div 2 ^ n + (x mod 2 ^ n) * 2 ^ (32 - n)"

definition choose32 :: "nat \<Rightarrow> nat \<Rightarrow> nat \<Rightarrow> nat" where
  "choose32 x y z = (x AND y) XOR ((4294967295 - x) AND z)"

definition majority32 :: "nat \<Rightarrow> nat \<Rightarrow> nat \<Rightarrow> nat" where
  "majority32 x y z = (x AND y) XOR (x AND z) XOR (y AND z)"

definition Sigma0 :: "nat \<Rightarrow> nat" where
  "Sigma0 x = rotr32 2 x XOR rotr32 13 x XOR rotr32 22 x"

definition Sigma1 :: "nat \<Rightarrow> nat" where
  "Sigma1 x = rotr32 6 x XOR rotr32 11 x XOR rotr32 25 x"

definition sigma0 :: "nat \<Rightarrow> nat" where
  "sigma0 x = rotr32 7 x XOR rotr32 18 x XOR x div 2 ^ 3"

definition sigma1 :: "nat \<Rightarrow> nat" where
  "sigma1 x = rotr32 17 x XOR rotr32 19 x XOR x div 2 ^ 10"

text \<open>The round constants and the initial hash value, in decimal.\<close>

definition round_constants :: "nat list" where
  "round_constants =
    [1116352408, 1899447441, 3049323471, 3921009573, 961987163, 1508970993,
     2453635748, 2870763221, 3624381080, 310598401, 607225278, 1426881987,
     1925078388, 2162078206, 2614888103, 3248222580, 3835390401, 4022224774,
     264347078, 604807628, 770255983, 1249150122, 1555081692, 1996064986,
     2554220882, 2821834349, 2952996808, 3210313671, 3336571891, 3584528711,
     113926993, 338241895, 666307205, 773529912, 1294757372, 1396182291,
     1695183700, 1986661051, 2177026350, 2456956037, 2730485921, 2820302411,
     3259730800, 3345764771, 3516065817, 3600352804, 4094571909, 275423344,
     430227734, 506948616, 659060556, 883997877, 958139571, 1322822218,
     1537002063, 1747873779, 1955562222, 2024104815, 2227730452, 2361852424,
     2428436474, 2756734187, 3204031479, 3329325298]"

definition initial_hash :: "nat list" where
  "initial_hash =
    [1779033703, 3144134277, 1013904242, 2773480762,
     1359893119, 2600822924, 528734635, 1541459225]"

text \<open>
  The message schedule is a window of sixteen words that moves by one word per round:
  \<open>schedule_word\<close> is the word that enters the window.
\<close>

definition schedule_word :: "nat list \<Rightarrow> nat" where
  "schedule_word w = add32 (add32 (sigma1 (w ! 14)) (w ! 9)) (add32 (sigma0 (w ! 1)) (w ! 0))"

definition next_state :: "nat \<Rightarrow> nat \<Rightarrow> nat list \<Rightarrow> nat list" where
  "next_state t1 t2 s = [add32 t1 t2, s ! 0, s ! 1, s ! 2, add32 (s ! 3) t1, s ! 4, s ! 5, s ! 6]"

definition sha_round :: "nat list \<Rightarrow> nat \<Rightarrow> nat \<Rightarrow> nat list" where
  "sha_round s k w =
     next_state
       (add32 (add32 (add32 (s ! 7) (Sigma1 (s ! 4))) (add32 (choose32 (s ! 4) (s ! 5) (s ! 6)) k)) w)
       (add32 (Sigma0 (s ! 0)) (majority32 (s ! 0) (s ! 1) (s ! 2))) s"

fun rounds :: "nat list \<Rightarrow> nat list \<Rightarrow> nat list \<Rightarrow> nat list" where
  "rounds [] w s = s"
| "rounds (k # ks) w s = rounds ks (tl w @ [schedule_word w]) (sha_round s k (hd w))"

definition compress :: "nat list \<Rightarrow> nat list \<Rightarrow> nat list" where
  "compress hs block = map2 add32 hs (rounds round_constants block hs)"

fun words_of_bytes :: "nat list \<Rightarrow> nat list" where
  "words_of_bytes (a # b # c # d # rest) = (((a * 256 + b) * 256 + c) * 256 + d) # words_of_bytes rest"
| "words_of_bytes _ = []"

fun digest_blocks :: "nat list \<Rightarrow> nat list \<Rightarrow> nat list" where
  "digest_blocks hs [] = hs"
| "digest_blocks hs (w # ws) = digest_blocks (compress hs (take 16 (w # ws))) (drop 15 ws)"

fun byte_count :: "'a list \<Rightarrow> nat" where
  "byte_count [] = 0"
| "byte_count (x # xs) = 1 + byte_count xs"

definition bit_length_bytes :: "nat \<Rightarrow> nat list" where
  "bit_length_bytes n =
     [(n div 72057594037927936) mod 256, (n div 281474976710656) mod 256,
      (n div 1099511627776) mod 256, (n div 4294967296) mod 256,
      (n div 16777216) mod 256, (n div 65536) mod 256, (n div 256) mod 256, n mod 256]"

definition padded :: "nat list \<Rightarrow> nat list" where
  "padded bytes =
     bytes @ [128] @ replicate ((119 - byte_count bytes mod 64) mod 64) 0
     @ bit_length_bytes (8 * byte_count bytes)"

definition hex_word :: "nat \<Rightarrow> string" where
  "hex_word w =
     map (\<lambda>n. ''0123456789abcdef'' ! n)
       [w div 268435456, (w div 16777216) mod 16, (w div 1048576) mod 16, (w div 65536) mod 16,
        (w div 4096) mod 16, (w div 256) mod 16, (w div 16) mod 16, w mod 16]"

definition sha256 :: "string \<Rightarrow> string" where
  "sha256 s =
     concat (map hex_word (digest_blocks initial_hash (words_of_bytes (padded (map of_char s)))))"

section \<open>lib/crypto.js\<close>

text \<open>
  The module wraps Node's \<open>crypto\<close>, which is not part of the repository: the digest
  is the parameter \<open>H\<close> (\<open>sha256\<close> when the program runs), the signature check
  \<open>createVerify("SHA256").update(data).verify(publicKey, signature, "hex")\<close> is the
  parameter \<open>V\<close> (it throws on a malformed key). The repository holds two versions of the
  module; the guards below are those of the version that rejects falsy arguments. The
  other version rejects non-strings only, so on strings it differs in accepting \<open>""\<close>.
\<close>

definition hashSHA256 :: "(string \<Rightarrow> string) \<Rightarrow> string \<Rightarrow> error + string" where
  "hashSHA256 H data =
     (if data = [] then Inl (Error ''Data is required for hashing'') else Inr (H data))"

definition verifySignature ::
  "(string \<Rightarrow> string \<Rightarrow> string \<Rightarrow> error + bool) \<Rightarrow> string \<Rightarrow> string \<Rightarrow> string \<Rightarrow> error + bool" where
  "verifySignature V data publicKey signature' =
     (if data = [] \<or> publicKey = [] \<or> signature' = []
      then Inl (Error ''Data, publicKey, and signature are required for verification'')
      else V data publicKey signature')"

section \<open>class Transaction\<close>

record transaction =
  fromAddress :: "string option"
  toAddress :: string
  amount :: int
  type :: string
  timestamp :: int
  signature :: "string option"
  status :: string

text \<open>The constructor; \<open>now\<close> is the value of \<open>Date.now()\<close>. The parameter \<open>type\<close>
  defaults to \<open>"standard"\<close> at the call sites that omit it.\<close>

definition Transaction_new :: "int \<Rightarrow> string option \<Rightarrow> string \<Rightarrow> int \<Rightarrow> string \<Rightarrow> transaction" where
  "Transaction_new now fromAddress' toAddress' amount' type' =
     \<lparr>fromAddress = fromAddress', toAddress = toAddress', amount = amount', type = type',
      timestamp = now, signature = None, status = ''pending''\<rparr>"

text \<open>A template literal renders \<open>null\<close> as the four letters.\<close>

definition nullable_toString :: "string option \<Rightarrow> string" where
  "nullable_toString v = (case v of None \<Rightarrow> ''null'' | Some s \<Rightarrow> s)"

definition Transaction_calculateHash :: "(string \<Rightarrow> string) \<Rightarrow> transaction \<Rightarrow> string" where
  "Transaction_calculateHash H t =
     H (nullable_toString (fromAddress t) @ toAddress t @ Number_toString (amount t) @ type t
        @ Number_toString (transaction.timestamp t) @ status t)"

text \<open>
  \<open>isValid\<close> passes \<open>(hashTx, this.signature, this.fromAddress)\<close> to
  \<open>verifySignature(data, publicKey, signature)\<close>, in this order.
\<close>

definition Transaction_isValid ::
  "(string \<Rightarrow> string \<Rightarrow> string \<Rightarrow> error + bool) \<Rightarrow> (string \<Rightarrow> string) \<Rightarrow> transaction \<Rightarrow> error + bool" where
  "Transaction_isValid V H t =
     (if type t = ''reward'' then Inr True
      else case signature t of
        None \<Rightarrow> Inl (Error ''Transaction must be signed.'')
      | Some sig \<Rightarrow>
          if sig = [] then Inl (Error ''Transaction must be signed.'')
          else case fromAddress t of
            None \<Rightarrow> Inl (Error ''Transaction must have a from address.'')
          | Some sender \<Rightarrow>
              if sender = [] then Inl (Error ''Transaction must have a from address.'')
              else verifySignature V (Transaction_calculateHash H t) sig sender)"

definition updateStatus :: "transaction \<Rightarrow> string \<Rightarrow> (error + unit) \<times> transaction" where
  "updateStatus t newStatus =
     (if newStatus \<in> set [''pending'', ''confirmed'', ''available'']
      then (Inr (), t\<lparr>status := newStatus\<rparr>)
      else (Inl (Error (''Invalid status '' @ [CHR 0x27] @ newStatus @ [CHR 0x27]
                        @ '' provided to updateStatus.'')), t))"

definition or_else :: "string option \<Rightarrow> string \<Rightarrow> string" where
  "or_else v d = (case v of None \<Rightarrow> d | Some s \<Rightarrow> if s = [] then d else s)"

definition Transaction_toString :: "transaction \<Rightarrow> string" where
  "Transaction_toString t =
     ''Transaction - '' @ [CHR 0x0A]
     @ ''            From: '' @ or_else (fromAddress t) ''System'' @ '', '' @ [CHR 0x0A]
     @ ''            To: '' @ toAddress t @ '', '' @ [CHR 0x0A]
     @ ''            Amount: '' @ Number_toString (amount t) @ '', '' @ [CHR 0x0A]
     @ ''            Type: '' @ type t @ '', '' @ [CHR 0x0A]
     @ ''            Status: '' @ status t @ '', '' @ [CHR 0x0A]
     @ ''            Timestamp: '' @ Number_toString (transaction.timestamp t) @ '', '' @ [CHR 0x0A]
     @ ''            Signature: '' @ or_else (signature t) ''None''"

text \<open>\<open>JSON.stringify\<close> of a Transaction: its own properties in the order the constructor
  assigns them.\<close>

definition JSON_stringify :: "transaction \<Rightarrow> string" where
  "JSON_stringify t =
     ''{'' @ json_key ''fromAddress'' @ json_nullable (fromAddress t)
     @ '','' @ json_key ''toAddress'' @ json_string (toAddress t)
     @ '','' @ json_key ''amount'' @ Number_toString (amount t)
     @ '','' @ json_key ''type'' @ json_string (type t)
     @ '','' @ json_key ''timestamp'' @ Number_toString (transaction.timestamp t)
     @ '','' @ json_key ''signature'' @ json_nullable (signature t)
     @ '','' @ json_key ''status'' @ json_string (status t) @ ''}''"

definition JSON_stringify_array :: "transaction list \<Rightarrow> string" where
  "JSON_stringify_array txs = ''['' @ join '','' (map JSON_stringify txs) @ '']''"

section \<open>class MerkleTree\<close>

record MerkleTree =
  leaves :: "string list"
  tree :: "string list"

text \<open>
  One pass of the \<open>for\<close> loop of \<open>buildTree\<close>, which fills \<open>newLevel\<close>:
  \<open>right = hashes[i + 1] || left\<close> takes \<open>left\<close> when there is no right neighbour and
  also when the neighbour is the empty string.
\<close>

fun newLevel :: "(string \<Rightarrow> string) \<Rightarrow> string list \<Rightarrow> error + string list" where
  "newLevel H [] = Inr []"
| "newLevel H [left] =
     (case hashSHA256 H (left @ left) of Inl e \<Rightarrow> Inl e | Inr h \<Rightarrow> Inr [h])"
| "newLevel H (left # right # rest) =
     (case hashSHA256 H (left @ (if right = [] then left else right)) of
        Inl e \<Rightarrow> Inl e
      | Inr h \<Rightarrow> (case newLevel H rest of Inl e \<Rightarrow> Inl e | Inr hs \<Rightarrow> Inr (h # hs)))"

text \<open>
  \<open>buildTree\<close> recurses until one hash remains and returns that one-element array. On
  the empty array it would recurse forever; the runtime ends that with a \<open>RangeError\<close>.
\<close>

function buildTree :: "(string \<Rightarrow> string) \<Rightarrow> string list \<Rightarrow> error + string list" where
  "buildTree H hashes =
     (if length hashes = 1 then Inr hashes
      else if hashes = [] then Inl RangeError
      else case newLevel H hashes of Inl e \<Rightarrow> Inl e | Inr lvl \<Rightarrow> buildTree H lvl)"
  by pat_completeness auto
termination
proof (relation "measure (\<lambda>(H, hashes). length hashes)")
  show "wf (measure (\<lambda>(H, hashes). length hashes))"
    by simp
next
  fix H :: "string \<Rightarrow> string" and hashes lvl :: "string list"
  assume big: "length hashes \<noteq> 1" "hashes \<noteq> []" and lvl: "newLevel H hashes = Inr lvl"
  have halves: "newLevel H xs = Inr ys \<Longrightarrow> length ys = (length xs + 1) div 2" for xs ys
    by (induction H xs arbitrary: ys rule: newLevel.induct) (auto split: sum.splits)
  from big have "length hashes \<noteq> 0"
    by simp
  with big have "2 \<le> length hashes"
    by arith
  with halves [OF lvl] have "length lvl < length hashes"
    by simp
  then show "((H, lvl), (H, hashes)) \<in> measure (\<lambda>(H, hashes). length hashes)"
    by simp
qed

declare buildTree.simps [simp del]

definition MerkleTree_new :: "(string \<Rightarrow> string) \<Rightarrow> string list \<Rightarrow> error + MerkleTree" where
  "MerkleTree_new H transactions =
     (if transactions = [] then Inl (Error ''Transactions must be an array and cannot be empty.'')
      else case Array_map (hashSHA256 H) transactions of
        Inl e \<Rightarrow> Inl e
      | Inr ls \<Rightarrow> (case buildTree H ls of
                     Inl e \<Rightarrow> Inl e
                   | Inr t \<Rightarrow> Inr \<lparr>leaves = ls, tree = t\<rparr>))"

text \<open>\<open>getRoot\<close> reads \<open>tree[tree.length - 1]\<close>, which is \<open>undefined\<close> (\<open>None\<close>) on an
  empty array.\<close>

definition getRoot :: "MerkleTree \<Rightarrow> string option" where
  "getRoot mt = (if tree mt = [] then None else Some (last (tree mt)))"

text \<open>
  The \<open>for\<close> loop of \<open>generateProof\<close>. Its update expression is
  \<open>level = this.buildTree(level)\<close>: the next value of \<open>level\<close> is what \<open>buildTree\<close>
  returns. The body runs with \<open>index < level.length\<close> (the first pass starts from the
  position \<open>indexOf\<close> found), so \<open>level[siblingIndex]\<close> is an element of \<open>level\<close>.
\<close>

function proofLoop ::
  "(string \<Rightarrow> string) \<Rightarrow> string list \<Rightarrow> nat \<Rightarrow> string list \<Rightarrow> error + string list" where
  "proofLoop H level index siblings =
     (if 1 < length level then
        (let siblingIndex = (if index mod 2 = 0 then index + 1 else index - 1);
             siblingIndex = (if siblingIndex < length level then siblingIndex else index)
         in case buildTree H level of
              Inl e \<Rightarrow> Inl e
            | Inr level' \<Rightarrow> proofLoop H level' (index div 2) (siblings @ [level ! siblingIndex]))
      else Inr siblings)"
  by pat_completeness auto
termination
proof -
  have single: "buildTree H xs = Inr ys \<Longrightarrow> length ys = 1" for H xs ys
  proof (induction H xs rule: buildTree.induct)
    case (1 H hashes)
    show ?case
    proof (cases "length hashes = 1")
      case True
      with "1.prems" show ?thesis
        by (subst (asm) buildTree.simps) simp
    next
      case False
      show ?thesis
      proof (cases "hashes = []")
        case True
        with "1.prems" False show ?thesis
          by (subst (asm) buildTree.simps) simp
      next
        case nonempty: False
        from "1.prems" False nonempty obtain lvl
          where l: "newLevel H hashes = Inr lvl" and b: "buildTree H lvl = Inr ys"
          by (subst (asm) buildTree.simps) (auto split: sum.splits)
        from "1.IH" [OF False nonempty l b] show ?thesis .
      qed
    qed
  qed
  show ?thesis
    by (relation "measure (\<lambda>(H, level, index, siblings). length level)")
       (auto dest: single)
qed

declare proofLoop.simps [simp del]

definition generateProof :: "(string \<Rightarrow> string) \<Rightarrow> MerkleTree \<Rightarrow> string \<Rightarrow> error + string list" where
  "generateProof H mt transaction =
     (case hashSHA256 H transaction of
        Inl e \<Rightarrow> Inl e
      | Inr hash \<Rightarrow>
          (case indexOf (leaves mt) hash of
             None \<Rightarrow> Inl (Error ''Transaction not found in the Merkle Tree.'')
           | Some index \<Rightarrow> proofLoop H (leaves mt) index []))"

text \<open>The \<open>forEach\<close> of \<open>verifyProof\<close>, with \<open>computedHash\<close> as accumulator.\<close>

fun verifyLoop :: "(string \<Rightarrow> string) \<Rightarrow> string \<Rightarrow> string list \<Rightarrow> error + string" where
  "verifyLoop H computedHash [] = Inr computedHash"
| "verifyLoop H computedHash (siblingHash # rest) =
     (case hashSHA256 H (if js_less computedHash siblingHash
                         then computedHash @ siblingHash else siblingHash @ computedHash) of
        Inl e \<Rightarrow> Inl e
      | Inr h \<Rightarrow> verifyLoop H h rest)"

definition verifyProof :: "(string \<Rightarrow> string) \<Rightarrow> string list \<Rightarrow> string option \<Rightarrow> string \<Rightarrow> error + bool" where
  "verifyProof H siblings root transaction =
     (case hashSHA256 H transaction of
        Inl e \<Rightarrow> Inl e
      | Inr computedHash \<Rightarrow>
          (case verifyLoop H computedHash siblings of
             Inl e \<Rightarrow> Inl e
           | Inr h \<Rightarrow> Inr (Some h = root)))"

section \<open>class Block\<close>

text \<open>
  The constructor stores whatever it is given, so a field of a block holds a JavaScript
  value: \<open>undefined\<close>, \<open>null\<close>, a number, a string or an array of transactions.
  \<open>js_toString\<close> is the conversion a template literal applies; an array is rendered
  as its elements' \<open>toString()\<close> joined by commas.
\<close>

datatype jsval = JUndefined | JNull | JNum int | JStr string | JArr "transaction list"

definition js_toString :: "jsval \<Rightarrow> string" where
  "js_toString v =
     (case v of
        JUndefined \<Rightarrow> ''undefined''
      | JNull \<Rightarrow> ''null''
      | JNum n \<Rightarrow> Number_toString n
      | JStr s \<Rightarrow> s
      | JArr txs \<Rightarrow> join '','' (map Transaction_toString txs))"

record block =
  index :: jsval
  previousHash :: jsval
  timestamp :: jsval
  transactions :: "transaction list"
  nonce :: int
  merkleRoot :: jsval
  hash :: string

text \<open>
  \<open>calculateMerkleRoot\<close> on a block whose \<open>transactions\<close> is an array. The tree is the
  \<open>MerkleTree\<close> above, which hashes the strings it is given once more.
\<close>

definition calculateMerkleRoot :: "(string \<Rightarrow> string) \<Rightarrow> transaction list \<Rightarrow> error + jsval" where
  "calculateMerkleRoot H txs =
     (case Array_map (\<lambda>tx. hashSHA256 H (JSON_stringify tx)) txs of
        Inl e \<Rightarrow> Inl e
      | Inr hashes \<Rightarrow>
          (case MerkleTree_new H hashes of
             Inl e \<Rightarrow> Inl e
           | Inr merkleTree \<Rightarrow>
               Inr (case getRoot merkleTree of None \<Rightarrow> JUndefined | Some r \<Rightarrow> JStr r)))"

definition hashContent :: "block \<Rightarrow> string" where
  "hashContent b =
     js_toString (index b) @ js_toString (previousHash b) @ js_toString (block.timestamp b)
     @ JSON_stringify_array (transactions b) @ js_toString (merkleRoot b)
     @ Number_toString (nonce b)"

definition Block_calculateHash :: "(string \<Rightarrow> string) \<Rightarrow> block \<Rightarrow> error + string" where
  "Block_calculateHash H b = hashSHA256 H (hashContent b)"

text \<open>
  \<open>constructor(index, previousHash, timestamp, transactions, nonce = 0)\<close>. A parameter the
  caller leaves out is \<open>JUndefined\<close>. \<open>calculateMerkleRoot\<close> calls
  \<open>this.transactions.map\<close>, which throws a \<open>TypeError\<close> unless \<open>transactions\<close> is an
  array.
\<close>

definition Block_new ::
  "(string \<Rightarrow> string) \<Rightarrow> jsval \<Rightarrow> jsval \<Rightarrow> jsval \<Rightarrow> jsval \<Rightarrow> int \<Rightarrow> error + block" where
  "Block_new H index' previousHash' timestamp' transactions' nonce' =
     (case transactions' of
        JArr txs \<Rightarrow>
          (case calculateMerkleRoot H txs of
             Inl e \<Rightarrow> Inl e
           | Inr root \<Rightarrow>
               (let b = \<lparr>index = index', previousHash = previousHash', timestamp = timestamp',
                         transactions = txs, nonce = nonce', merkleRoot = root, hash = []\<rparr>
                in case Block_calculateHash H b of
                     Inl e \<Rightarrow> Inl e
                   | Inr h \<Rightarrow> Inr (b\<lparr>hash := h\<rparr>)))
      | _ \<Rightarrow> Inl TypeError)"

text \<open>
  \<open>mineBlock\<close>: the \<open>while\<close> loop may run forever, which is the value \<open>None\<close>.
  \<open>Array(difficulty + 1)\<close> throws a \<open>RangeError\<close> on a length that is negative or
  above \<open>2^32 - 1\<close>;
  \<open>substring(0, difficulty)\<close> is the first \<open>difficulty\<close> characters, all of them when
  the hash is shorter.
\<close>

partial_function (option) mineBlock ::
  "(string \<Rightarrow> string) \<Rightarrow> int \<Rightarrow> block \<Rightarrow> ((error + unit) \<times> block) option" where
  "mineBlock H d b =
     (if d + 1 < 0 \<or> 4294967295 < d + 1 then Some (Inl RangeError, b)
      else if take (nat d) (hash b) \<noteq> replicate (nat d) CHR ''0'' then
        (case Block_calculateHash H (b\<lparr>nonce := nonce b + 1\<rparr>) of
           Inl e \<Rightarrow> Some (Inl e, b\<lparr>nonce := nonce b + 1\<rparr>)
         | Inr h \<Rightarrow> mineBlock H d (b\<lparr>nonce := nonce b + 1, hash := h\<rparr>))
      else Some (Inr (), b))"

section \<open>class Blockchain\<close>

record Blockchain =
  chain :: "block list"
  difficulty :: int
  pendingTransactions :: "transaction list"
  miningReward :: int
  blockTime :: int
  nodes :: "string list"

text \<open>
  \<open>createGenesisBlock\<close> calls \<open>new Block(Date.parse("2024-01-01"), [genesisTransaction], "0")\<close>:
  three arguments, bound to \<open>index\<close>, \<open>previousHash\<close> and \<open>timestamp\<close>.
  \<open>Date.parse("2024-01-01")\<close> is 1704067200000.
\<close>

definition createGenesisBlock :: "(string \<Rightarrow> string) \<Rightarrow> int \<Rightarrow> error + block" where
  "createGenesisBlock H now =
     (let genesisTransaction = Transaction_new now None ''genesis-address'' 0 ''standard''
      in Block_new H (JNum 1704067200000) (JArr [genesisTransaction]) (JStr ''0'') JUndefined 0)"

definition Blockchain_new :: "(string \<Rightarrow> string) \<Rightarrow> int \<Rightarrow> error + Blockchain" where
  "Blockchain_new H now =
     (case createGenesisBlock H now of
        Inl e \<Rightarrow> Inl e
      | Inr genesis \<Rightarrow>
          Inr \<lparr>chain = [genesis], difficulty = 2, pendingTransactions = [], miningReward = 100,
               blockTime = 30000, nodes = []\<rparr>)"

definition getLatestBlock :: "Blockchain \<Rightarrow> block option" where
  "getLatestBlock bc = (if chain bc = [] then None else Some (last (chain bc)))"

text \<open>
  \<open>adjustDifficulty\<close> subtracts two timestamps; \<open>toNumber\<close> is the runtime's numeric
  conversion of a field value, \<open>None\<close> for \<open>NaN\<close>, with which both comparisons are
  false.
\<close>

definition adjustDifficulty ::
  "(jsval \<Rightarrow> int option) \<Rightarrow> block \<Rightarrow> Blockchain \<Rightarrow> (error + unit) \<times> Blockchain" where
  "adjustDifficulty toNumber lastBlock bc =
     (case getLatestBlock bc of
        None \<Rightarrow> (Inl TypeError, bc)
      | Some latest \<Rightarrow>
          (case (toNumber (block.timestamp lastBlock), toNumber (block.timestamp latest)) of
             (Some t1, Some t0) \<Rightarrow>
               (let timeTaken = t1 - t0
                in if 2 * timeTaken < blockTime bc then (Inr (), bc\<lparr>difficulty := difficulty bc + 1\<rparr>)
                   else if timeTaken > blockTime bc * 2 then (Inr (), bc\<lparr>difficulty := difficulty bc - 1\<rparr>)
                   else (Inr (), bc))
           | _ \<Rightarrow> (Inr (), bc)))"

text \<open>
  \<open>minePendingTransactions\<close>; \<open>now1\<close> and \<open>now2\<close> are the two readings of the clock.
  The reward transaction is built without a type, so it is a \<open>"standard"\<close> one. The
  block is built by \<open>new Block(Date.now(), this.pendingTransactions, this.getLatestBlock().hash)\<close>,
  again three arguments for \<open>index\<close>, \<open>previousHash\<close> and \<open>timestamp\<close>.
\<close>

definition minePendingTransactions ::
  "(string \<Rightarrow> string) \<Rightarrow> (jsval \<Rightarrow> int option) \<Rightarrow> int \<Rightarrow> int \<Rightarrow> string \<Rightarrow> Blockchain
     \<Rightarrow> ((error + unit) \<times> Blockchain) option" where
  "minePendingTransactions H toNumber now1 now2 miningRewardAddress bc =
     (let rewardTx = Transaction_new now1 None miningRewardAddress (miningReward bc) ''standard'';
          bc1 = bc\<lparr>pendingTransactions := pendingTransactions bc @ [rewardTx]\<rparr>
      in case getLatestBlock bc1 of
           None \<Rightarrow> Some (Inl TypeError, bc1)
         | Some latest \<Rightarrow>
             (case Block_new H (JNum now2) (JArr (pendingTransactions bc1)) (JStr (hash latest))
                     JUndefined 0 of
                Inl e \<Rightarrow> Some (Inl e, bc1)
              | Inr b \<Rightarrow>
                  (case mineBlock H (difficulty bc1) b of
                     None \<Rightarrow> None
                   | Some (Inl e, b') \<Rightarrow> Some (Inl e, bc1)
                   | Some (Inr u, b') \<Rightarrow>
                       (case adjustDifficulty toNumber b' bc1 of
                          (Inl e, bc2) \<Rightarrow> Some (Inl e, bc2)
                        | (Inr u, bc2) \<Rightarrow>
                            Some (Inr (), bc2\<lparr>chain := chain bc2 @ [b'], pendingTransactions := []\<rparr>)))))"

text \<open>
  \<open>synchronizeChain\<close> starts by calling \<open>this.isValidChain(newChain)\<close>. The class
  declares \<open>createGenesisBlock\<close>, \<open>getLatestBlock\<close>, \<open>addTransaction\<close>,
  \<open>minePendingTransactions\<close>, \<open>adjustDifficulty\<close>, \<open>isChainValid\<close>,
  \<open>getPendingTransactionsMerkleTree\<close>, \<open>broadcastLatestBlock\<close>, \<open>addNode\<close> and
  \<open>synchronizeChain\<close>, and nothing in the repository adds to it: the property
  \<open>isValidChain\<close> of a Blockchain is \<open>undefined\<close>, written \<open>None\<close>.
  \<open>synchronizeChain_with\<close> is the method body over the value of that property;
  \<open>broadcastLatestBlock\<close> has an empty loop body and changes nothing.
\<close>

definition Blockchain_isValidChain :: "(Blockchain \<Rightarrow> block list \<Rightarrow> error + bool) option" where
  "Blockchain_isValidChain = None"

definition synchronizeChain_with ::
  "(Blockchain \<Rightarrow> block list \<Rightarrow> error + bool) option \<Rightarrow> Blockchain \<Rightarrow> block list
     \<Rightarrow> (error + bool) \<times> Blockchain" where
  "synchronizeChain_with isValidChain bc newChain =
     (case isValidChain of
        None \<Rightarrow> (Inl TypeError, bc)
      | Some validate \<Rightarrow>
          (case validate bc newChain of
             Inl e \<Rightarrow> (Inl e, bc)
           | Inr valid \<Rightarrow>
               if \<not> valid \<or> length newChain \<le> length (chain bc) then (Inr False, bc)
               else (Inr True, bc\<lparr>chain := newChain\<rparr>)))"

definition synchronizeChain :: "Blockchain \<Rightarrow> block list \<Rightarrow> (error + bool) \<times> Blockchain" where
  "synchronizeChain bc newChain = synchronizeChain_with Blockchain_isValidChain bc newChain"

section \<open>The Mongoose models and class BlockchainService\<close>

text \<open>
  Documents of the \<open>Transaction\<close> and \<open>Block\<close> collections. \<open>doc_id\<close> is the \<open>_id\<close>
  Mongoose gives a new document; a \<open>Date\<close> field is its milliseconds. Mongoose and the
  database are outside the repository: the rendering of a \<open>Date\<close> in a template
  literal is the parameter \<open>dateToString\<close>, and \<open>JSON.stringify\<close> of a transaction
  document is the parameter \<open>toJSON\<close>.
\<close>

record TransactionModel =
  doc_id :: string
  fromAddress :: "string option"
  toAddress :: string
  amount :: int
  signature :: "string option"
  timestamp :: int
  isReward :: bool

text \<open>\<open>transactionSchema.methods.isValid\<close> reads the signature and the amount only.\<close>

definition TransactionModel_isValid :: "TransactionModel \<Rightarrow> bool" where
  "TransactionModel_isValid t =
     (case TransactionModel.signature t of
        None \<Rightarrow> False
      | Some sig \<Rightarrow>
          if sig = [] then False
          else if TransactionModel.amount t \<le> 0 then False
          else True)"

record BlockModel =
  index :: int
  timestamp :: int
  transactions :: "string list"
  nonce :: int
  previousHash :: string
  merkleRoot :: jsval
  hash :: string

definition BlockModel_calculateHash :: "(string \<Rightarrow> string) \<Rightarrow> (int \<Rightarrow> string) \<Rightarrow> BlockModel \<Rightarrow> string" where
  "BlockModel_calculateHash H dateToString b =
     H (Number_toString (BlockModel.index b) @ BlockModel.previousHash b
        @ dateToString (BlockModel.timestamp b) @ js_toString (BlockModel.merkleRoot b)
        @ Number_toString (BlockModel.nonce b))"

record BlockchainService =
  difficulty :: int
  miningReward :: int
  pendingTransactions :: "TransactionModel list"

definition calculateHashForBlock ::
  "(string \<Rightarrow> string) \<Rightarrow> int \<Rightarrow> string \<Rightarrow> int \<Rightarrow> jsval \<Rightarrow> int \<Rightarrow> string" where
  "calculateHashForBlock H index' previousHash' timestamp' merkleRoot' nonce' =
     H (Number_toString index' @ previousHash' @ Number_toString timestamp'
        @ js_toString merkleRoot' @ Number_toString nonce')"

definition addTransaction ::
  "TransactionModel \<Rightarrow> BlockchainService \<Rightarrow> (error + unit) \<times> BlockchainService" where
  "addTransaction transaction svc =
     (if TransactionModel.fromAddress transaction = None
         \<or> TransactionModel.fromAddress transaction = Some []
         \<or> TransactionModel.toAddress transaction = []
      then (Inl (Error ''Transaction must include from and to addresses.''), svc)
      else if \<not> TransactionModel_isValid transaction
      then (Inl (Error ''Cannot add invalid transaction to the chain.''), svc)
      else (Inr (), svc\<lparr>pendingTransactions := pendingTransactions svc @ [transaction]\<rparr>))"

partial_function (option) proofOfWork ::
  "(string \<Rightarrow> string) \<Rightarrow> (int \<Rightarrow> string) \<Rightarrow> int \<Rightarrow> BlockModel
     \<Rightarrow> ((error + unit) \<times> BlockModel) option" where
  "proofOfWork H dateToString d b =
     (if d + 1 < 0 \<or> 4294967295 < d + 1 then Some (Inl RangeError, b)
      else if take (nat d) (BlockModel.hash b) \<noteq> replicate (nat d) CHR ''0'' then
        proofOfWork H dateToString d
          (b\<lparr>BlockModel.nonce := BlockModel.nonce b + 1,
             BlockModel.hash :=
               BlockModel_calculateHash H dateToString (b\<lparr>BlockModel.nonce := BlockModel.nonce b + 1\<rparr>)\<rparr>)
      else Some (Inr (), b))"

text \<open>
  \<open>minePendingTransactions\<close> is an \<open>async\<close> function with three \<open>await\<close>s. While one
  of them is pending the event loop runs other handlers, among them \<open>addTransaction\<close>.
  What one run meets is collected in \<open>mining_env\<close>: the block that \<open>getLatestBlock\<close>
  resolves to (\<open>None\<close> for \<open>null\<close>) or the error it rejects with, the \<open>_id\<close> of the reward
  document, the three
  readings of \<open>Date.now()\<close>, the transactions handed to \<open>addTransaction\<close> while each
  \<open>await\<close> is pending, and the error \<open>safeBlockSave\<close> rethrows, if any.
\<close>

record mining_env =
  latestBlock :: "error + BlockModel option"
  rewardId :: string
  clock1 :: int
  clock2 :: int
  clock3 :: int
  submitted1 :: "TransactionModel list"
  submitted2 :: "TransactionModel list"
  submitted3 :: "TransactionModel list"
  saveError :: "error option"

definition submit :: "TransactionModel list \<Rightarrow> BlockchainService \<Rightarrow> BlockchainService" where
  "submit txs svc = fold (\<lambda>tx s. snd (addTransaction tx s)) txs svc"

text \<open>
  The result carries the block handed to \<open>safeBlockSave\<close>, so that its transactions can
  be compared with the queue; the JavaScript function itself resolves to \<open>undefined\<close>.
\<close>

definition BlockchainService_minePendingTransactions ::
  "(string \<Rightarrow> string) \<Rightarrow> (int \<Rightarrow> string) \<Rightarrow> (TransactionModel \<Rightarrow> string) \<Rightarrow> mining_env
     \<Rightarrow> string \<Rightarrow> BlockchainService \<Rightarrow> ((error + BlockModel) \<times> BlockchainService) option" where
  "BlockchainService_minePendingTransactions H dateToString toJSON env miningRewardAddress svc =
     (if pendingTransactions svc = [] then Some (Inl (Error ''No transactions to mine.''), svc)
      else
        let svc1 = submit (submitted1 env) svc
        in case latestBlock env of
             Inl e \<Rightarrow> Some (Inl e, svc1)
           | Inr found \<Rightarrow>
               (let rewardTransaction =
                      \<lparr>doc_id = rewardId env, fromAddress = None, toAddress = miningRewardAddress,
                       amount = miningReward svc1, signature = None, timestamp = clock1 env,
                       isReward = False\<rparr>;
                    svc2 = svc1\<lparr>pendingTransactions := pendingTransactions svc1 @ [rewardTransaction]\<rparr>;
                    transactionData = map toJSON (pendingTransactions svc2)
                in case MerkleTree_new H transactionData of
                     Inl e \<Rightarrow> Some (Inl e, svc2)
                   | Inr merkleTree \<Rightarrow>
                       (case found of
                          None \<Rightarrow> Some (Inl TypeError, svc2)
                        | Some latest \<Rightarrow>
                            (let root = (case getRoot merkleTree of
                                           None \<Rightarrow> JUndefined | Some r \<Rightarrow> JStr r);
                                 newBlock =
                                   \<lparr>index = BlockModel.index latest + 1, timestamp = clock2 env,
                                    transactions = map doc_id (pendingTransactions svc2), nonce = 0,
                                    previousHash = BlockModel.hash latest, merkleRoot = root,
                                    hash = calculateHashForBlock H (BlockModel.index latest + 1)
                                             (BlockModel.hash latest) (clock3 env) root 0\<rparr>
                             in case proofOfWork H dateToString (difficulty svc2) newBlock of
                                  None \<Rightarrow> None
                                | Some (Inl e, mined) \<Rightarrow> Some (Inl e, submit (submitted2 env) svc2)
                                | Some (Inr u, mined) \<Rightarrow>
                                    (let svc3 = submit (submitted2 env) svc2;
                                         svc4 = submit (submitted3 env) svc3
                                     in case saveError env of
                                          Some e \<Rightarrow> Some (Inl e, svc4)
                                        | None \<Rightarrow>
                                            Some (Inr mined, svc4\<lparr>pendingTransactions := []\<rparr>))))))"

section \<open>The digest on the inputs used below\<close>

lemma replicate_numeral: "replicate (numeral k) x = x # replicate (pred_numeral k) x"
  by (simp add: numeral_eq_Suc)

lemmas sha256_eval = sha256_def padded_def bit_length_bytes_def hex_word_def compress_def
  round_constants_def initial_hash_def sha_round_def next_state_def schedule_word_def
  Sigma0_def Sigma1_def sigma0_def sigma1_def choose32_def majority32_def rotr32_def add32_def
  replicate_numeral

text \<open>The first test vector of the standard.\<close>

lemma sha256_abc:
  "sha256 ''abc'' = ''ba7816bf8f01cfea414140de5dae2223b00361a396177a9cb410ff61f20015ad''"
  by (simp add: sha256_eval)

lemma sha256_pending:
  "sha256 ''alicebob5standard1pending''
     = ''1dc19f167fda3bf5eaf8f65ee353ee76b6daf90a18d4b9db8a59cf8d03ea547f''"
  by (simp add: sha256_eval)

lemma sha256_confirmed:
  "sha256 ''alicebob5standard1confirmed''
     = ''5c83bc06ee4a573ac328385c35dd712480c5ff7d7f6e5af1c2ad241d88001e97''"
  by (simp add: sha256_eval)

section \<open>Properties of the Merkle tree\<close>

lemma hashSHA256_Inr: "data \<noteq> [] \<Longrightarrow> hashSHA256 H data = Inr (H data)"
  by (simp add: hashSHA256_def)

lemma buildTree_one: "buildTree H [h] = Inr [h]"
  by (simp add: buildTree.simps)

lemma proofLoop_short: "length level \<le> 1 \<Longrightarrow> proofLoop H level i acc = Inr acc"
  by (subst proofLoop.simps) simp

lemma js_less_asym: "js_less x y \<Longrightarrow> \<not> js_less y x"
  by (induction x y rule: js_less.induct) (auto split: if_splits)

lemma js_less_Nil: "\<not> js_less x []"
  by (cases x) simp_all

text \<open>
  Claim C10. A tree built from exactly one transaction has the leaf hash of that
  transaction as its root, with no further hashing; the proof generated for the
  transaction is empty, and the empty proof verifies against the root.
\<close>

theorem single_leaf_tree:
  assumes "MerkleTree_new H [t] = Inr mt"
  shows "leaves mt = [H t] \<and> getRoot mt = Some (H t)
         \<and> generateProof H mt t = Inr [] \<and> verifyProof H [] (getRoot mt) t = Inr True"
proof -
  from assms have t: "t \<noteq> []"
    by (auto simp: MerkleTree_new_def hashSHA256_def split: if_splits)
  with assms have mt: "mt = \<lparr>leaves = [H t], tree = [H t]\<rparr>"
    by (simp add: MerkleTree_new_def hashSHA256_Inr buildTree_one)
  show ?thesis
    by (simp add: mt getRoot_def generateProof_def verifyProof_def hashSHA256_Inr t proofLoop_short)
qed

theorem single_leaf_tree_witness:
  "MerkleTree_new sha256 [''abc'']
     = Inr \<lparr>leaves = [''ba7816bf8f01cfea414140de5dae2223b00361a396177a9cb410ff61f20015ad''],
            tree = [''ba7816bf8f01cfea414140de5dae2223b00361a396177a9cb410ff61f20015ad'']\<rparr>
   \<and> generateProof sha256
         \<lparr>leaves = [''ba7816bf8f01cfea414140de5dae2223b00361a396177a9cb410ff61f20015ad''],
          tree = [''ba7816bf8f01cfea414140de5dae2223b00361a396177a9cb410ff61f20015ad'']\<rparr> ''abc''
       = Inr []
   \<and> verifyProof sha256 []
         (Some ''ba7816bf8f01cfea414140de5dae2223b00361a396177a9cb410ff61f20015ad'') ''abc''
       = Inr True"
proof -
  have built: "MerkleTree_new sha256 [''abc'']
                 = Inr \<lparr>leaves = [sha256 ''abc''], tree = [sha256 ''abc'']\<rparr>"
    by (simp add: MerkleTree_new_def hashSHA256_def buildTree.simps)
  from single_leaf_tree [OF built] built show ?thesis
    by (simp add: getRoot_def sha256_abc)
qed

text \<open>
  Claim C2 says that the proof generated for a transaction of the list verifies against
  the root. \<open>verifyProof\<close> puts the smaller of the two strings on the left, while
  \<open>buildTree\<close> puts the node with the even position on the left. For a tree of two
  transactions whose first leaf hash is the greater one, the tree is built, the proof
  of the first transaction is generated, and \<open>verifyProof\<close> returns \<open>false\<close> for it.
  The SHA-256 digests of \<open>"a"\<close> and \<open>"b"\<close> (\<open>ca978112...\<close> and \<open>3e23e816...\<close>) are in
  that order. The witness takes a digest that marks its input, on \<open>"b"\<close> and \<open>"a"\<close>.
\<close>

theorem two_leaf_proof_rejected:
  assumes a: "a \<noteq> []" and b: "b \<noteq> []"
    and order: "js_less (H b) (H a)"
    and differ: "H (H b @ H a) \<noteq> H (H a @ H b)"
  shows "MerkleTree_new H [a, b] = Inr \<lparr>leaves = [H a, H b], tree = [H (H a @ H b)]\<rparr>
         \<and> generateProof H \<lparr>leaves = [H a, H b], tree = [H (H a @ H b)]\<rparr> a = Inr [H b]
         \<and> verifyProof H [H b] (getRoot \<lparr>leaves = [H a, H b], tree = [H (H a @ H b)]\<rparr>) a = Inr False"
proof -
  from order have Ha: "H a \<noteq> []"
    by (auto simp: js_less_Nil)
  from differ have Hb: "H b \<noteq> []"
    by auto
  have tree: "buildTree H [H a, H b] = Inr [H (H a @ H b)]"
    by (subst buildTree.simps) (simp add: hashSHA256_def Ha Hb buildTree_one)
  have built: "MerkleTree_new H [a, b] = Inr \<lparr>leaves = [H a, H b], tree = [H (H a @ H b)]\<rparr>"
    by (simp add: MerkleTree_new_def hashSHA256_def a b tree)
  have loop: "proofLoop H [H a, H b] 0 [] = Inr [H b]"
    by (subst proofLoop.simps) (simp add: tree proofLoop_short)
  have gen: "generateProof H \<lparr>leaves = [H a, H b], tree = [H (H a @ H b)]\<rparr> a = Inr [H b]"
    by (simp add: generateProof_def hashSHA256_def a loop)
  from js_less_asym [OF order] have "\<not> js_less (H a) (H b)" .
  then have "verifyProof H [H b] (Some (H (H a @ H b))) a = Inr False"
    using differ by (simp add: verifyProof_def hashSHA256_def a Ha Hb)
  with built gen show ?thesis
    by (simp add: getRoot_def)
qed

theorem two_leaf_proof_rejected_witness:
  "verifyProof (\<lambda>s. CHR ''#'' # s) [''#a'']
     (getRoot \<lparr>leaves = [''#b'', ''#a''], tree = [''##b#a'']\<rparr>) ''b'' = Inr False"
  using two_leaf_proof_rejected [of "''b''" "''a''" "\<lambda>s. CHR ''#'' # s"]
  by (simp add: getRoot_def)

text \<open>
  The loop of \<open>generateProof\<close> replaces \<open>level\<close> by the result of \<open>buildTree\<close>, the
  one-element top of the tree, so it ends after one pass: a proof never has more than
  one sibling, whatever the number of leaves.
\<close>

lemma buildTree_length: "buildTree H xs = Inr ys \<Longrightarrow> length ys = 1"
proof (induction H xs rule: buildTree.induct)
  case (1 H hashes)
  show ?case
  proof (cases "length hashes = 1")
    case True
    with "1.prems" show ?thesis
      by (subst (asm) buildTree.simps) simp
  next
    case False
    show ?thesis
    proof (cases "hashes = []")
      case True
      with "1.prems" False show ?thesis
        by (subst (asm) buildTree.simps) simp
    next
      case nonempty: False
      from "1.prems" False nonempty obtain lvl
        where l: "newLevel H hashes = Inr lvl" and b: "buildTree H lvl = Inr ys"
        by (subst (asm) buildTree.simps) (auto split: sum.splits)
      from "1.IH" [OF False nonempty l b] show ?thesis .
    qed
  qed
qed

lemma generateProof_at_most_one_sibling:
  assumes "generateProof H mt t = Inr siblings"
  shows "length siblings \<le> 1"
proof -
  from assms obtain i where loop: "proofLoop H (leaves mt) i [] = Inr siblings"
    by (auto simp: generateProof_def split: sum.splits option.splits)
  show ?thesis
  proof (cases "1 < length (leaves mt)")
    case False
    with loop show ?thesis
      by (simp add: proofLoop_short)
  next
    case True
    with loop obtain level' x where "buildTree H (leaves mt) = Inr level'"
      and "proofLoop H level' (i div 2) [x] = Inr siblings"
      by (subst (asm) proofLoop.simps) (auto simp: Let_def split: sum.splits)
    then show ?thesis
      by (auto dest!: buildTree_length simp: proofLoop_short)
  qed
qed

section \<open>Properties of class Transaction\<close>

lemmas tx_eval = Transaction_new_def Transaction_calculateHash_def nullable_toString_def
  Number_toString_def digits.simps

text \<open>
  Claim C9, as the code has it. \<open>updateStatus\<close> looks at the requested status only: it
  succeeds for \<open>"pending"\<close>, \<open>"confirmed"\<close> and \<open>"available"\<close> from any current status
  and assigns it; any other request throws and leaves the transaction as it was.
\<close>

theorem updateStatus_accepts_known_statuses:
  "(newStatus \<in> {''pending'', ''confirmed'', ''available''} \<longrightarrow>
      updateStatus t newStatus = (Inr (), t\<lparr>status := newStatus\<rparr>))
   \<and> (newStatus \<notin> {''pending'', ''confirmed'', ''available''} \<longrightarrow>
      updateStatus t newStatus =
        (Inl (Error (''Invalid status '' @ [CHR 0x27] @ newStatus @ [CHR 0x27]
                     @ '' provided to updateStatus.'')), t))"
  by (simp add: updateStatus_def)

theorem updateStatus_accepts_known_statuses_witness:
  "updateStatus (Transaction_new 1 (Some ''alice'') ''bob'' 5 ''standard'') ''available''
     = (Inr (), (Transaction_new 1 (Some ''alice'') ''bob'' 5 ''standard'')\<lparr>status := ''available''\<rparr>)
   \<and> updateStatus (Transaction_new 1 (Some ''alice'') ''bob'' 5 ''standard'') ''mined''
     = (Inl (Error (''Invalid status '' @ [CHR 0x27] @ ''mined'' @ [CHR 0x27]
                    @ '' provided to updateStatus.'')),
        Transaction_new 1 (Some ''alice'') ''bob'' 5 ''standard'')"
  using updateStatus_accepts_known_statuses
          [of "''available''" "Transaction_new 1 (Some ''alice'') ''bob'' 5 ''standard''"]
        updateStatus_accepts_known_statuses
          [of "''mined''" "Transaction_new 1 (Some ''alice'') ''bob'' 5 ''standard''"]
  by simp

text \<open>
  The claim allows the step from pending to confirmed only. A transaction that was
  confirmed is set back to pending, and the call succeeds.
\<close>

theorem updateStatus_backward_counterexample:
  "updateStatus (snd (updateStatus (Transaction_new 1 (Some ''alice'') ''bob'' 5 ''standard'')
                        ''confirmed'')) ''pending''
     = (Inr (), Transaction_new 1 (Some ''alice'') ''bob'' 5 ''standard'')"
  by (simp add: updateStatus_def Transaction_new_def)

text \<open>
  Claim C5, as the code has it. The hash input is the concatenation of sender,
  recipient, amount, type, timestamp and status: transactions that agree on these six
  fields have the same hash, whatever their signatures.
\<close>

theorem canonical_hash_fields:
  assumes "transaction.fromAddress t1 = transaction.fromAddress t2"
    and "transaction.toAddress t1 = transaction.toAddress t2"
    and "transaction.amount t1 = transaction.amount t2"
    and "type t1 = type t2"
    and "transaction.timestamp t1 = transaction.timestamp t2"
    and "status t1 = status t2"
  shows "Transaction_calculateHash H t1 = Transaction_calculateHash H t2"
  using assms by (simp add: Transaction_calculateHash_def)

theorem canonical_hash_fields_witness:
  "Transaction_calculateHash sha256 (Transaction_new 1 (Some ''alice'') ''bob'' 5 ''standard'')
   = Transaction_calculateHash sha256
       ((Transaction_new 1 (Some ''alice'') ''bob'' 5 ''standard'')\<lparr>transaction.signature := Some ''3045''\<rparr>)"
  using canonical_hash_fields
          [of "Transaction_new 1 (Some ''alice'') ''bob'' 5 ''standard''"
              "(Transaction_new 1 (Some ''alice'') ''bob'' 5 ''standard'')\<lparr>transaction.signature := Some ''3045''\<rparr>"
              sha256]
  by (simp add: Transaction_new_def)

text \<open>The hashes of a transaction while it is pending and after it was confirmed.\<close>

lemma canonical_hash_pending:
  "Transaction_calculateHash sha256 (Transaction_new 1 (Some ''alice'') ''bob'' 5 ''standard'')
     = ''1dc19f167fda3bf5eaf8f65ee353ee76b6daf90a18d4b9db8a59cf8d03ea547f''"
  by (simp add: tx_eval sha256_pending)

lemma canonical_hash_confirmed:
  "Transaction_calculateHash sha256
     ((Transaction_new 1 (Some ''alice'') ''bob'' 5 ''standard'')\<lparr>status := ''confirmed''\<rparr>)
     = ''5c83bc06ee4a573ac328385c35dd712480c5ff7d7f6e5af1c2ad241d88001e97''"
  by (simp add: tx_eval sha256_confirmed)

text \<open>
  The claim lists five fields. The two transactions agree on them and differ in the
  status, and their SHA-256 hashes differ.
\<close>

theorem canonical_hash_status_counterexample:
  "Transaction_calculateHash sha256 (Transaction_new 1 (Some ''alice'') ''bob'' 5 ''standard'')
   \<noteq> Transaction_calculateHash sha256
       ((Transaction_new 1 (Some ''alice'') ''bob'' 5 ''standard'')\<lparr>status := ''confirmed''\<rparr>)"
  by (simp add: canonical_hash_pending canonical_hash_confirmed)

text \<open>
  Claim C6, as the code has it. Only the type \<open>"reward"\<close> is exempt from the checks.
  Every other transaction, of whatever type, is rejected with \<open>Transaction must be
  signed.\<close> when its signature is \<open>null\<close> or empty, and with \<open>Transaction must have a
  from address.\<close> when it is signed and its sender is \<open>null\<close> or empty. None of the
  three outcomes depends on the verifier or on the digest. The statement says nothing
  about a transaction that has both a signature and a sender; that case is the subject
  of the lemmas \<open>isValid_signed\<close> and \<open>isValid_signed_throws\<close> below.
\<close>

theorem isValid_cases:
  "(type t = ''reward'' \<longrightarrow> Transaction_isValid V H t = Inr True)
   \<and> (type t \<noteq> ''reward''
        \<and> (transaction.signature t = None \<or> transaction.signature t = Some []) \<longrightarrow>
      Transaction_isValid V H t = Inl (Error ''Transaction must be signed.''))
   \<and> (type t \<noteq> ''reward''
        \<and> transaction.signature t \<noteq> None \<and> transaction.signature t \<noteq> Some []
        \<and> (transaction.fromAddress t = None \<or> transaction.fromAddress t = Some []) \<longrightarrow>
      Transaction_isValid V H t = Inl (Error ''Transaction must have a from address.''))"
  by (auto simp: Transaction_isValid_def split: option.splits)

text \<open>
  The theorem at a reward, at an unsigned payment and at a signed payment without a
  sender. The verifier of the witness throws on every call, as a check that none of the
  three outcomes comes from it.
\<close>

theorem isValid_cases_witness:
  "Transaction_isValid (\<lambda>d k s. Inl TypeError) sha256
     (Transaction_new 1 None ''miner'' 100 ''reward'') = Inr True
   \<and> Transaction_isValid (\<lambda>d k s. Inl TypeError) sha256
       (Transaction_new 1 (Some ''alice'') ''bob'' 5 ''standard'')
     = Inl (Error ''Transaction must be signed.'')
   \<and> Transaction_isValid (\<lambda>d k s. Inl TypeError) sha256
       ((Transaction_new 1 None ''bob'' 5 ''standard'')\<lparr>transaction.signature := Some ''3045''\<rparr>)
     = Inl (Error ''Transaction must have a from address.'')"
  using isValid_cases [of "Transaction_new 1 None ''miner'' 100 ''reward''"
                          "\<lambda>d k s. Inl TypeError" sha256]
        isValid_cases [of "Transaction_new 1 (Some ''alice'') ''bob'' 5 ''standard''"
                          "\<lambda>d k s. Inl TypeError" sha256]
        isValid_cases [of "(Transaction_new 1 None ''bob'' 5 ''standard'')\<lparr>transaction.signature := Some ''3045''\<rparr>"
                          "\<lambda>d k s. Inl TypeError" sha256]
  by (simp add: Transaction_new_def)

text \<open>
  The claim says that a genesis transaction is valid regardless of its signature. An
  unsigned transaction of type \<open>"genesis"\<close> is rejected.
\<close>

theorem isValid_genesis_counterexample:
  "Transaction_isValid (\<lambda>d k s. Inr True) sha256
     (Transaction_new 1704067200000 None ''genesis-address'' 0 ''genesis'')
   = Inl (Error ''Transaction must be signed.'')"
  by (simp add: Transaction_isValid_def Transaction_new_def)

text \<open>
  The call as the method makes it: \<open>verifySignature(hashTx, this.signature,
  this.fromAddress)\<close> against the parameters \<open>(data, publicKey, signature)\<close>. The
  signature stands where \<open>verifySignature\<close> has its parameter \<open>publicKey\<close>, the sender
  where it has \<open>signature\<close>.
\<close>

lemma isValid_signed:
  "type t \<noteq> ''reward'' \<Longrightarrow> transaction.signature t = Some sig \<Longrightarrow> sig \<noteq> [] \<Longrightarrow>
   transaction.fromAddress t = Some sender \<Longrightarrow> sender \<noteq> [] \<Longrightarrow>
   Transaction_isValid V H t = verifySignature V (Transaction_calculateHash H t) sig sender"
  by (simp add: Transaction_isValid_def)

text \<open>
  \<open>signData\<close> returns the signature as a string of hexadecimal digits, and Node's
  \<open>verify\<close> throws when the string it is given as key is not a key in PEM format. With
  a verifier that throws on the key \<open>sig\<close>, \<open>isValid\<close> throws on every transaction
  signed \<open>sig\<close> that has a sender: it returns neither \<open>true\<close> nor \<open>false\<close>, whether
  or not \<open>sig\<close> is the sender's signature of the hash. The docstring of \<open>isValid\<close>
  announces a boolean here.
\<close>

lemma isValid_signed_throws:
  assumes "type t \<noteq> ''reward''"
    and "transaction.signature t = Some sig" and "sig \<noteq> []"
    and "transaction.fromAddress t = Some sender" and "sender \<noteq> []"
    and malformed: "\<And>data s. \<exists>e. V data sig s = Inl e"
  shows "\<exists>e. Transaction_isValid V H t = Inl e"
proof -
  have call: "Transaction_isValid V H t
                = verifySignature V (Transaction_calculateHash H t) sig sender"
    using assms(1-5) by (simp add: Transaction_isValid_def)
  from malformed obtain e where "V (Transaction_calculateHash H t) sig sender = Inl e"
    by blast
  then show ?thesis
    unfolding call verifySignature_def by simp
qed

text \<open>
  An instance: the verifier below accepts \<open>3045\<close> as a signature under the key
  \<open>alice\<close> and throws on every other key. The transaction carries that signature and
  that sender, and \<open>isValid\<close> throws, because it asks for \<open>alice\<close> under the key
  \<open>3045\<close>.
\<close>

lemma isValid_signed_example:
  "Transaction_isValid
     (\<lambda>d k s. if k = ''alice'' then Inr (s = ''3045'') else Inl (Error ''unsupported''))
     sha256
     ((Transaction_new 1 (Some ''alice'') ''bob'' 5 ''standard'')\<lparr>transaction.signature := Some ''3045''\<rparr>)
   = Inl (Error ''unsupported'')"
  by (simp add: Transaction_isValid_def tx_eval sha256_pending verifySignature_def)

text \<open>The Mongoose model's \<open>isValid\<close> knows no kinds at all.\<close>

lemma TransactionModel_isValid_iff:
  "TransactionModel_isValid t \<longleftrightarrow>
     (\<exists>sig. TransactionModel.signature t = Some sig \<and> sig \<noteq> []) \<and> 0 < TransactionModel.amount t"
  by (auto simp: TransactionModel_isValid_def split: option.splits)

section \<open>Properties of class Block\<close>

lemma hashContent_nonempty: "hashContent b \<noteq> []"
  by (simp add: hashContent_def JSON_stringify_array_def)

lemma Block_calculateHash_eq: "Block_calculateHash H b = Inr (H (hashContent b))"
  by (simp add: Block_calculateHash_def hashSHA256_def hashContent_nonempty)

text \<open>
  Claim C4 says that the hash input of a block is made of index, previousHash,
  timestamp, merkleRoot and nonce and of nothing else, as the comment of
  \<open>Block.calculateHash\<close> does. The method also puts \<open>JSON.stringify(this.transactions)\<close>
  into the input: when a transaction of a block goes from pending to confirmed, the
  five fields stay and the hash input changes.
\<close>

theorem Block_hash_input_reads_transactions:
  "hashContent (b\<lparr>block.transactions := [t\<lparr>status := ''pending''\<rparr>]\<rparr>)
     \<noteq> hashContent (b\<lparr>block.transactions := [t\<lparr>status := ''confirmed''\<rparr>]\<rparr>)"
  by (simp add: hashContent_def JSON_stringify_array_def JSON_stringify_def json_string_def
        json_escape_def)

text \<open>The Mongoose model's \<open>calculateHash\<close> reads the five fields only.\<close>

lemma BlockModel_hash_five_fields:
  assumes "BlockModel.index b1 = BlockModel.index b2"
    and "BlockModel.previousHash b1 = BlockModel.previousHash b2"
    and "BlockModel.timestamp b1 = BlockModel.timestamp b2"
    and "BlockModel.merkleRoot b1 = BlockModel.merkleRoot b2"
    and "BlockModel.nonce b1 = BlockModel.nonce b2"
  shows "BlockModel_calculateHash H dateToString b1 = BlockModel_calculateHash H dateToString b2"
  using assms by (simp add: BlockModel_calculateHash_def)

text \<open>The constructor stores the hash of the fields it has set.\<close>

lemma Block_new_hash:
  assumes "Block_new H i p ts txs n = Inr b"
  shows "Block_calculateHash H b = Inr (block.hash b)"
  using assms
  by (auto simp: Block_new_def Let_def Block_calculateHash_eq hashContent_def
        split: jsval.splits sum.splits)

lemma mineBlock_prefix:
  assumes "mineBlock H d b = Some y" and "y = (Inr (), b')"
  shows "take (nat d) (block.hash b') = replicate (nat d) CHR ''0''"
  using assms
proof (induct arbitrary: b' rule: mineBlock.raw_induct [rotated 1, consumes 1])
  case (1 mine H d b y)
  show ?case
  proof (cases "take (nat d) (block.hash b) = replicate (nat d) CHR ''0''")
    case True
    with "1.prems" "1.hyps"(2) show ?thesis
      by (auto split: if_splits)
  next
    case False
    let ?b = "b\<lparr>block.nonce := block.nonce b + 1,
                  block.hash := H (hashContent (b\<lparr>block.nonce := block.nonce b + 1\<rparr>))\<rparr>"
    from False "1.prems" "1.hyps"(2) have "mine H d ?b = Some y"
      by (auto simp: Block_calculateHash_eq split: if_splits)
    from "1.hyps"(1) [OF this "1.prems"] show ?thesis .
  qed
qed

lemma mineBlock_keeps_hash:
  assumes "mineBlock H d b = Some y"
    and "Block_calculateHash H b = Inr (block.hash b)"
    and "y = (Inr (), b')"
  shows "Block_calculateHash H b' = Inr (block.hash b')"
  using assms
proof (induct arbitrary: b' rule: mineBlock.raw_induct [rotated 1, consumes 1])
  case (1 mine H d b y)
  show ?case
  proof (cases "take (nat d) (block.hash b) = replicate (nat d) CHR ''0''")
    case True
    with "1.prems" "1.hyps"(2) show ?thesis
      by (auto split: if_splits)
  next
    case False
    let ?b = "b\<lparr>block.nonce := block.nonce b + 1,
                  block.hash := H (hashContent (b\<lparr>block.nonce := block.nonce b + 1\<rparr>))\<rparr>"
    from False "1.prems" "1.hyps"(2) have run: "mine H d ?b = Some y"
      by (auto simp: Block_calculateHash_eq split: if_splits)
    have "Block_calculateHash H ?b = Inr (block.hash ?b)"
      by (simp add: Block_calculateHash_eq hashContent_def)
    from "1.hyps"(1) [OF run this "1.prems"(2)] show ?thesis .
  qed
qed

text \<open>
  Claim C8. For a difficulty \<open>d \<ge> 0\<close> and any block, when \<open>mineBlock\<close> returns, the
  stored hash has at least \<open>d\<close> characters and its first \<open>d\<close> characters are \<open>'0'\<close>; and
  if the stored hash was the computed hash of the block when mining began (as it is
  after the constructor), it is still the computed hash of the block's fields when
  mining ends.
\<close>

theorem mineBlock_postcondition:
  assumes "0 \<le> d" and "mineBlock H d b = Some (Inr (), b')"
  shows "take (nat d) (block.hash b') = replicate (nat d) CHR ''0''
         \<and> nat d \<le> length (block.hash b')
         \<and> (Block_calculateHash H b = Inr (block.hash b)
              \<longrightarrow> Block_calculateHash H b' = Inr (block.hash b'))"
proof -
  have zeros: "take (nat d) (block.hash b') = replicate (nat d) CHR ''0''"
    using mineBlock_prefix [OF assms(2) refl] .
  then have "length (take (nat d) (block.hash b')) = nat d"
    by simp
  then have "nat d \<le> length (block.hash b')"
    by simp
  with zeros mineBlock_keeps_hash [OF assms(2) _ refl] show ?thesis
    by simp
qed

text \<open>
  The witness mines a block as the constructor builds it, with a digest that returns
  the last character of its input: the loop runs from nonce 7 to nonce 10.
\<close>

lemmas block_eval = Block_new_def calculateMerkleRoot_def MerkleTree_new_def getRoot_def
  hashSHA256_def buildTree.simps Block_calculateHash_def hashContent_def js_toString_def
  JSON_stringify_array_def JSON_stringify_def json_key_def json_string_def json_nullable_def
  json_escape_def Number_toString_def digits.simps Transaction_new_def

theorem mineBlock_postcondition_witness:
  "Block_new (\<lambda>s. take 1 (rev s)) (JNum 1) (JStr ''0'') (JNum 1704067200000)
     (JArr [Transaction_new 1704067200000 None ''miner'' 100 ''reward'']) 7
   = Inr \<lparr>block.index = JNum 1, previousHash = JStr ''0'', timestamp = JNum 1704067200000,
           transactions = [Transaction_new 1704067200000 None ''miner'' 100 ''reward''],
           nonce = 7, merkleRoot = JStr ''}'', hash = ''7''\<rparr>
   \<and> mineBlock (\<lambda>s. take 1 (rev s)) 1
     \<lparr>block.index = JNum 1, previousHash = JStr ''0'', timestamp = JNum 1704067200000,
      transactions = [Transaction_new 1704067200000 None ''miner'' 100 ''reward''],
      nonce = 7, merkleRoot = JStr ''}'', hash = ''7''\<rparr>
   = Some (Inr (),
     \<lparr>block.index = JNum 1, previousHash = JStr ''0'', timestamp = JNum 1704067200000,
      transactions = [Transaction_new 1704067200000 None ''miner'' 100 ''reward''],
      nonce = 10, merkleRoot = JStr ''}'', hash = ''0''\<rparr>)
   \<and> Block_calculateHash (\<lambda>s. take 1 (rev s))
     \<lparr>block.index = JNum 1, previousHash = JStr ''0'', timestamp = JNum 1704067200000,
      transactions = [Transaction_new 1704067200000 None ''miner'' 100 ''reward''],
      nonce = 10, merkleRoot = JStr ''}'', hash = ''0''\<rparr> = Inr ''0''"
proof -
  let ?H = "\<lambda>s. take 1 (rev s)"
  let ?tx = "Transaction_new 1704067200000 None ''miner'' 100 ''reward''"
  let ?b = "\<lparr>block.index = JNum 1, previousHash = JStr ''0'', timestamp = JNum 1704067200000,
             transactions = [?tx], nonce = 7, merkleRoot = JStr ''}'', hash = ''7''\<rparr>"
  let ?b' = "\<lparr>block.index = JNum 1, previousHash = JStr ''0'', timestamp = JNum 1704067200000,
              transactions = [?tx], nonce = 10, merkleRoot = JStr ''}'', hash = ''0''\<rparr>"
  have built: "Block_new ?H (JNum 1) (JStr ''0'') (JNum 1704067200000) (JArr [?tx]) 7 = Inr ?b"
    by (simp add: block_eval)
  have stored: "Block_calculateHash ?H ?b = Inr (block.hash ?b)"
    using Block_new_hash [OF built] .
  have run: "mineBlock ?H 1 ?b = Some (Inr (), ?b')"
    by (simp add: mineBlock.simps block_eval)
  from mineBlock_postcondition [OF _ run] stored built run show ?thesis
    by simp
qed

section \<open>Properties of class Blockchain\<close>

text \<open>
  Claim C1 is about the states that construction, \<open>minePendingTransactions\<close> and
  \<open>synchronizeChain\<close> reach: \<open>chain[0]\<close> is the genesis block and every block names the
  hash of the one before it. The constructor does not return: \<open>createGenesisBlock\<close>
  passes three arguments to a constructor of five, \<open>transactions\<close> stays \<open>undefined\<close>,
  and \<open>calculateMerkleRoot\<close> throws.
\<close>

theorem Blockchain_constructor_throws: "Blockchain_new H now = Inl TypeError"
  by (simp add: Blockchain_new_def createGenesisBlock_def Block_new_def)

text \<open>
  \<open>minePendingTransactions\<close> makes the same call. On any Blockchain it appends the
  reward transaction to the queue and throws; no block is appended to the chain.
\<close>

lemma minePendingTransactions_throws:
  "minePendingTransactions H toNumber now1 now2 miningRewardAddress bc
     = Some (Inl TypeError,
             bc\<lparr>Blockchain.pendingTransactions := Blockchain.pendingTransactions bc
                   @ [Transaction_new now1 None miningRewardAddress (Blockchain.miningReward bc) ''standard'']\<rparr>)"
  by (simp add: minePendingTransactions_def Block_new_def Let_def split: option.splits)

text \<open>
  Claim C3 says that \<open>synchronizeChain\<close> replaces the chain exactly when the candidate
  is longer and valid. The method calls \<open>this.isValidChain\<close>, which the class does not
  have, before it compares the lengths: every call throws and the chain stays.
\<close>

theorem synchronizeChain_throws: "synchronizeChain bc newChain = (Inl TypeError, bc)"
  by (simp add: synchronizeChain_def Blockchain_isValidChain_def synchronizeChain_with_def)

text \<open>With a validation method in place, the body of the method is the rule of the claim.\<close>

lemma synchronizeChain_with_validator:
  assumes "validate bc newChain = Inr valid"
  shows "synchronizeChain_with (Some validate) bc newChain
           = (if valid \<and> length (chain bc) < length newChain
              then (Inr True, bc\<lparr>chain := newChain\<rparr>) else (Inr False, bc))"
  using assms by (auto simp: synchronizeChain_with_def)

section \<open>Properties of class BlockchainService\<close>

text \<open>Whenever mining completes, the queue is empty, whatever was submitted meanwhile.\<close>

lemma mining_clears_the_queue:
  assumes "BlockchainService_minePendingTransactions H dateToString toJSON env miningRewardAddress svc
             = Some (Inr mined, svc')"
  shows "pendingTransactions svc' = []"
  using assms
  by (auto simp: BlockchainService_minePendingTransactions_def Let_def
           split: if_splits sum.splits option.splits prod.splits)

text \<open>
  Claim C7 says that a transaction added to the queue after the snapshot is still
  queued when mining completes. Here \<open>t1\<close> is queued, mining starts, and \<open>t2\<close> is
  submitted while \<open>safeBlockSave\<close> is awaited. \<open>addTransaction\<close> accepts \<open>t2\<close>; the mined
  block holds \<open>t1\<close> and the reward; the queue is empty afterwards, so \<open>t2\<close> is in neither.
  The digest puts a zero in front of its input, so that the proof of work ends at once.
\<close>

theorem late_submission_dropped:
  "addTransaction
     \<lparr>doc_id = ''t2'', fromAddress = Some ''carol'', toAddress = ''dave'', amount = 7,
      signature = Some ''3046'', timestamp = 2, isReward = False\<rparr>
     \<lparr>difficulty = 1, miningReward = 100, pendingTransactions = []\<rparr>
   = (Inr (), \<lparr>difficulty = 1, miningReward = 100, pendingTransactions =
        [\<lparr>doc_id = ''t2'', fromAddress = Some ''carol'', toAddress = ''dave'', amount = 7,
          signature = Some ''3046'', timestamp = 2, isReward = False\<rparr>]\<rparr>)
   \<and> map_option (\<lambda>(outcome, svc). (map_sum id BlockModel.transactions outcome, pendingTransactions svc))
       (BlockchainService_minePendingTransactions (\<lambda>s. CHR ''0'' # s) Number_toString doc_id
          \<lparr>latestBlock = Inr (Some \<lparr>index = 0, timestamp = 0, transactions = [''g''], nonce = 0,
                                previousHash = ''0'', merkleRoot = JStr ''m'', hash = ''0g''\<rparr>),
           rewardId = ''r1'', clock1 = 3, clock2 = 3, clock3 = 3,
           submitted1 = [], submitted2 = [],
           submitted3 = [\<lparr>doc_id = ''t2'', fromAddress = Some ''carol'', toAddress = ''dave'',
                           amount = 7, signature = Some ''3046'', timestamp = 2, isReward = False\<rparr>],
           saveError = None\<rparr>
          ''miner''
          \<lparr>difficulty = 1, miningReward = 100, pendingTransactions =
             [\<lparr>doc_id = ''t1'', fromAddress = Some ''alice'', toAddress = ''bob'', amount = 5,
               signature = Some ''3045'', timestamp = 1, isReward = False\<rparr>]\<rparr>)
     = Some (Inr [''t1'', ''r1''], [])"
proof -
  have tree: "MerkleTree_new ((#) CHR ''0'') [''t1'', ''r1'']
                = Inr \<lparr>leaves = [''0t1'', ''0r1''], tree = [''00t10r1'']\<rparr>"
  proof -
    have "buildTree ((#) CHR ''0'') [''0t1'', ''0r1''] = Inr [''00t10r1'']"
      by (subst buildTree.simps) (simp add: hashSHA256_def buildTree_one)
    then show ?thesis
      by (simp add: MerkleTree_new_def hashSHA256_def)
  qed
  have stored: "calculateHashForBlock ((#) CHR ''0'') 1 ''0g'' 3 (JStr ''00t10r1'') 0
                  = ''010g300t10r10''"
    by (simp add: calculateHashForBlock_def Number_toString_def digits.simps js_toString_def)
  have mined: "proofOfWork ((#) CHR ''0'') Number_toString 1
       \<lparr>index = 1, timestamp = 3, transactions = [''t1'', ''r1''], nonce = 0,
        previousHash = ''0g'', merkleRoot = JStr ''00t10r1'', hash = ''010g300t10r10''\<rparr>
     = Some (Inr (),
       \<lparr>index = 1, timestamp = 3, transactions = [''t1'', ''r1''], nonce = 0,
        previousHash = ''0g'', merkleRoot = JStr ''00t10r1'', hash = ''010g300t10r10''\<rparr>)"
    by (subst proofOfWork.simps) simp
  show ?thesis
    by (simp add: BlockchainService_minePendingTransactions_def addTransaction_def submit_def
          TransactionModel_isValid_def tree getRoot_def stored mined)
qed

end
